theory Spec2Isabelle
  imports Complex_Main
begin

section \<open>Complex numbers\<close>

text \<open>
  The C type \<^verbatim>\<open>Complex\<close> is a struct of two doubles, \<^verbatim>\<open>real\<close> and \<^verbatim>\<open>imag\<close>.
  The specification treats the scalars as a supplied numeric type with exact field
  operations, so a double is modelled here as a real number: rounding, infinities
  and NaN are outside this development. The operations are the ones the source
  defines when it is built without the host runtime.
\<close>

datatype Complex = Cplx (real_c: real) (imag_c: real)

definition CZero :: Complex where
  "CZero = Cplx 0 0"

definition COne :: Complex where
  "COne = Cplx 1 0"

definition complex_iszero :: "Complex \<Rightarrow> bool" where
  "complex_iszero c = (real_c c = 0 \<and> imag_c c = 0)"

definition complex_add :: "Complex \<Rightarrow> Complex \<Rightarrow> Complex" where
  "complex_add a b = Cplx (real_c a + real_c b) (imag_c a + imag_c b)"

definition complex_sub :: "Complex \<Rightarrow> Complex \<Rightarrow> Complex" where
  "complex_sub a b = Cplx (real_c a - real_c b) (imag_c a - imag_c b)"

definition complex_neg :: "Complex \<Rightarrow> Complex" where
  "complex_neg z = Cplx (- real_c z) (- imag_c z)"

definition complex_mult :: "Complex \<Rightarrow> Complex \<Rightarrow> Complex" where
  "complex_mult a b =
     Cplx (real_c a * real_c b - imag_c a * imag_c b)
          (real_c a * imag_c b + imag_c a * real_c b)"

text \<open>
  \<^verbatim>\<open>complex_div\<close> sets \<^verbatim>\<open>errno = EDOM\<close> when the squared modulus of the divisor is zero
  and then returns its local \<^verbatim>\<open>r\<close> without having written it. That outcome is \<open>None\<close>.
\<close>

definition complex_div :: "Complex \<Rightarrow> Complex \<Rightarrow> Complex option" where
  "complex_div a b =
     (let d = real_c b * real_c b + imag_c b * imag_c b in
      if d = 0 then None
      else Some (Cplx ((real_c a * real_c b + imag_c a * imag_c b) / d)
                      ((imag_c a * real_c b - real_c a * imag_c b) / d)))"

section \<open>Polynomials\<close>

text \<open>
  A \<^verbatim>\<open>Polynomial\<close> is a pointer \<^verbatim>\<open>coef\<close> to a block of coefficients and an \<^verbatim>\<open>int\<close> field
  \<^verbatim>\<open>deg\<close>. The block is a list; the empty list is the \<^verbatim>\<open>NULL\<close> pointer (every block that
  \<^verbatim>\<open>poly_init\<close> obtains holds at least one coefficient). Operands and destinations are
  distinct objects, as the operators' naming convention in the source requires. Degrees
  are mathematical integers: a sum of two degrees leaves the range of \<^verbatim>\<open>int\<close> only for
  blocks of more than \<open>2^30\<close> coefficients.

  The rendering \<^verbatim>\<open>poly_to_string\<close>, its helper \<^verbatim>\<open>__strdup\<close> and the demonstration in \<^verbatim>\<open>main\<close>
  are not part of this development.

  The source indexes blocks without any check. An index outside the block is undefined
  behaviour in C; the list operations used here return an unspecified value for such a
  read and ignore such a write, and every theorem below about an operation that reads its
  operands is stated for polynomials whose degree lies inside their block (\<open>allocated\<close>).
\<close>

record Polynomial =
  coef :: "Complex list"
  deg :: int

definition MAX_macro :: "int \<Rightarrow> int \<Rightarrow> int" where
  "MAX_macro a b = (if a > b then a else b)"

text \<open>
  \<^verbatim>\<open>calloc(n, sizeof(Complex))\<close>: a block of \<open>n\<close> coefficients with all bits zero. Memory is
  taken to be available for every positive count. A negative \<^verbatim>\<open>int\<close> count converts to a
  \<^verbatim>\<open>size_t\<close> whose product with the element size overflows, and \<^verbatim>\<open>calloc\<close> returns \<^verbatim>\<open>NULL\<close>.
\<close>

definition calloc :: "int \<Rightarrow> Complex list option" where
  "calloc n = (if 0 < n then Some (replicate (nat n) CZero) else None)"

text \<open>\<^verbatim>\<open>memcpy(dst, src, n)\<close> on blocks of coefficients.\<close>

definition memcpy :: "Complex list \<Rightarrow> Complex list \<Rightarrow> int \<Rightarrow> Complex list" where
  "memcpy dst src n = take (nat n) src @ drop (nat n) dst"

text \<open>
  Every operator writes its result through a pointer and returns an \<^verbatim>\<open>int\<close>. The model
  takes the previous contents of the destination and returns the \<^verbatim>\<open>int\<close> together with the
  new contents.
\<close>

definition poly_init :: "Polynomial \<Rightarrow> int \<Rightarrow> int \<times> Polynomial" where
  "poly_init P d =
     (if d = -1 then (1, P\<lparr>coef := [], deg := d\<rparr>)
      else (case calloc (d + 1) of
              None \<Rightarrow> (0, P\<lparr>coef := []\<rparr>)
            | Some blk \<Rightarrow> (1, P\<lparr>coef := blk, deg := d\<rparr>)))"

definition poly_free :: "Polynomial \<Rightarrow> Polynomial" where
  "poly_free P = P\<lparr>coef := []\<rparr>"

text \<open>
  The macro \<^verbatim>\<open>Poly_Resize\<close>. Its loop reads \<^verbatim>\<open>coef[deg]\<close> while \<^verbatim>\<open>deg != -1\<close>; no operation
  stores a degree below \<open>-1\<close>, for which the read would lie before the block, and the
  model's loop stops there.
\<close>

function Poly_Resize :: "Polynomial \<Rightarrow> Polynomial" where
  "Poly_Resize P =
     (if deg P \<noteq> -1 \<and> 0 \<le> deg P \<and> complex_iszero (coef P ! nat (deg P))
      then Poly_Resize (P\<lparr>deg := deg P - 1\<rparr>)
      else P)"
  by pat_completeness auto
termination
  by (relation "measure (\<lambda>P. nat (deg P + 1))") auto

definition poly_set_coef :: "Polynomial \<Rightarrow> int \<Rightarrow> Complex \<Rightarrow> Polynomial" where
  "poly_set_coef P i c =
     (let P1 = P\<lparr>coef := (coef P)[nat i := c]\<rparr> in
      if i > deg P1 \<and> \<not> complex_iszero c then P1\<lparr>deg := i\<rparr>
      else Poly_Resize P1)"


text \<open>
  The header \<^verbatim>\<open>polynomials.h\<close> is not part of the sources at hand. Its three macros used
  by the operators are taken from the specification.
\<close>

text \<open>Modelled from the spec: the macro \<^verbatim>\<open>Poly_GetCoef\<close> of the missing header,
  "coefficient-at-index (zero if out of range)".\<close>

definition Poly_GetCoef :: "Polynomial \<Rightarrow> int \<Rightarrow> Complex" where
  "Poly_GetCoef P i = (if 0 \<le> i \<and> i \<le> deg P then coef P ! nat i else CZero)"

text \<open>Modelled from the spec: the macro \<^verbatim>\<open>Poly_LeadCoef\<close> of the missing header,
  "coefficient at the current degree index".\<close>

definition Poly_LeadCoef :: "Polynomial \<Rightarrow> Complex" where
  "Poly_LeadCoef P = coef P ! nat (deg P)"

text \<open>Modelled from the spec: the macro \<^verbatim>\<open>Poly_InitConst\<close> of the missing header,
  "a degree-0 polynomial holding constant c (degree -1 if c is zero, by normalization)";
  its third argument is set when the allocation fails. The model returns that flag.\<close>

definition Poly_InitConst :: "Polynomial \<Rightarrow> Complex \<Rightarrow> int \<Rightarrow> int \<times> Polynomial" where
  "Poly_InitConst P c failure =
     (let r = poly_init P 0 in
      if fst r = 0 then (1, snd r)
      else (failure, poly_set_coef (snd r) 0 c))"

text \<open>
  \<^verbatim>\<open>poly_equal\<close> first compares the two pointers; objects are values here, and two equal
  values pass the remaining tests as well.
\<close>

function equal_loop :: "Polynomial \<Rightarrow> Polynomial \<Rightarrow> int \<Rightarrow> int" where
  "equal_loop P Q i =
     (if i \<le> deg P then
        (if real_c (coef P ! nat i) \<noteq> real_c (coef Q ! nat i)
            \<or> imag_c (coef P ! nat i) \<noteq> imag_c (coef Q ! nat i)
         then 0
         else equal_loop P Q (i + 1))
      else 1)"
  by pat_completeness auto
termination
  by (relation "measure (\<lambda>(P, Q, i). nat (deg P + 1 - i))") auto

definition poly_equal :: "Polynomial \<Rightarrow> Polynomial \<Rightarrow> int" where
  "poly_equal P Q = (if deg P \<noteq> deg Q then 0 else equal_loop P Q 0)"

function eval_loop :: "Polynomial \<Rightarrow> Complex \<Rightarrow> int \<Rightarrow> Complex \<Rightarrow> Complex" where
  "eval_loop P c i result =
     (if i \<ge> 0
      then eval_loop P c (i - 1) (complex_add (complex_mult result c) (coef P ! nat i))
      else result)"
  by pat_completeness auto
termination
  by (relation "measure (\<lambda>(P, c, i, result). nat (i + 1))") auto

definition poly_eval :: "Polynomial \<Rightarrow> Complex \<Rightarrow> Complex" where
  "poly_eval P c = eval_loop P c (deg P) CZero"

subsection \<open>Operators\<close>

definition poly_copy :: "Polynomial \<Rightarrow> Polynomial \<Rightarrow> int \<times> Polynomial" where
  "poly_copy A P =
     (let r = poly_init P (deg A) in
      if fst r = 0 then (0, snd r)
      else (1, (snd r)\<lparr>coef := memcpy (coef (snd r)) (coef A) (deg A + 1)\<rparr>))"

function add_loop :: "Polynomial \<Rightarrow> Polynomial \<Rightarrow> int \<Rightarrow> Polynomial \<Rightarrow> Polynomial" where
  "add_loop A B i R =
     (if i \<le> MAX_macro (deg A) (deg B)
      then add_loop A B (i + 1)
             (R\<lparr>coef := (coef R)[nat i := complex_add (Poly_GetCoef A i) (Poly_GetCoef B i)]\<rparr>)
      else R)"
  by pat_completeness auto
termination
  by (relation "measure (\<lambda>(A, B, i, R). nat (MAX_macro (deg A) (deg B) + 1 - i))") auto

definition poly_add :: "Polynomial \<Rightarrow> Polynomial \<Rightarrow> Polynomial \<Rightarrow> int \<times> Polynomial" where
  "poly_add A B R =
     (let r = poly_init R (MAX_macro (deg A) (deg B)) in
      if fst r = 0 then (0, snd r)
      else (1, Poly_Resize (add_loop A B 0 (snd r))))"

function sub_loop :: "Polynomial \<Rightarrow> Polynomial \<Rightarrow> int \<Rightarrow> Polynomial \<Rightarrow> Polynomial" where
  "sub_loop A B i R =
     (if i \<le> MAX_macro (deg A) (deg B)
      then sub_loop A B (i + 1)
             (R\<lparr>coef := (coef R)[nat i := complex_sub (Poly_GetCoef A i) (Poly_GetCoef B i)]\<rparr>)
      else R)"
  by pat_completeness auto
termination
  by (relation "measure (\<lambda>(A, B, i, R). nat (MAX_macro (deg A) (deg B) + 1 - i))") auto

definition poly_sub :: "Polynomial \<Rightarrow> Polynomial \<Rightarrow> Polynomial \<Rightarrow> int \<times> Polynomial" where
  "poly_sub A B R =
     (let r = poly_init R (MAX_macro (deg A) (deg B)) in
      if fst r = 0 then (0, snd r)
      else (1, Poly_Resize (sub_loop A B 0 (snd r))))"

function neg_loop :: "Polynomial \<Rightarrow> int \<Rightarrow> Polynomial \<Rightarrow> Polynomial" where
  "neg_loop A i Q =
     (if i \<le> deg A
      then neg_loop A (i + 1) (Q\<lparr>coef := (coef Q)[nat i := complex_neg (coef A ! nat i)]\<rparr>)
      else Q)"
  by pat_completeness auto
termination
  by (relation "measure (\<lambda>(A, i, Q). nat (deg A + 1 - i))") auto

definition poly_neg :: "Polynomial \<Rightarrow> Polynomial \<Rightarrow> int \<times> Polynomial" where
  "poly_neg A Q =
     (let r = poly_init Q (deg A) in
      if fst r = 0 then (0, snd r)
      else (1, neg_loop A 0 (snd r)))"

function mult_inner ::
  "Polynomial \<Rightarrow> Polynomial \<Rightarrow> int \<Rightarrow> int \<Rightarrow> Polynomial \<Rightarrow> Polynomial" where
  "mult_inner A B i j R =
     (if j \<le> i then
        (let tmp = complex_mult (Poly_GetCoef A j) (Poly_GetCoef B (i - j));
             ri = coef R ! nat i
         in mult_inner A B i (j + 1)
              (R\<lparr>coef := (coef R)[nat i :=
                   Cplx (real_c ri + real_c tmp) (imag_c ri + imag_c tmp)]\<rparr>))
      else R)"
  by pat_completeness auto
termination
  by (relation "measure (\<lambda>(A, B, i, j, R). nat (i + 1 - j))") auto

function mult_outer :: "Polynomial \<Rightarrow> Polynomial \<Rightarrow> int \<Rightarrow> Polynomial \<Rightarrow> Polynomial" where
  "mult_outer A B i R =
     (if i \<le> deg A + deg B
      then mult_outer A B (i + 1) (mult_inner A B i 0 R)
      else R)"
  by pat_completeness auto
termination
  by (relation "measure (\<lambda>(A, B, i, R). nat (deg A + deg B + 1 - i))") auto

definition poly_multiply :: "Polynomial \<Rightarrow> Polynomial \<Rightarrow> Polynomial \<Rightarrow> int \<times> Polynomial" where
  "poly_multiply A B R =
     (let r = poly_init R (deg A + deg B) in
      if fst r = 0 then (0, snd r)
      else (1, mult_outer A B 0 (snd r)))"

text \<open>
  \<^verbatim>\<open>poly_pow\<close>: the exponent is an \<^verbatim>\<open>unsigned int\<close>. The loop \<^verbatim>\<open>while (--n > 0)\<close> is entered
  with \<open>n \<ge> 1\<close> only, so the decrement never wraps and a natural number carries the
  counter. \<open>T\<close> is the local buffer of the source; it is not initialised there, and its
  contents on entry are a parameter here. The assignment \<^verbatim>\<open>*R = T\<close> copies both fields.
\<close>

function pow_loop ::
  "Polynomial \<Rightarrow> nat \<Rightarrow> Polynomial \<Rightarrow> Polynomial \<Rightarrow> int \<times> Polynomial" where
  "pow_loop A n R T =
     (if n - 1 > 0 then
        (let r = poly_multiply R A T;
             R1 = poly_free R
         in if fst r = 0 then (0, R1)
            else pow_loop A (n - 1) (snd r) (snd r))
      else (1, R))"
  by pat_completeness auto
termination
  by (relation "measure (\<lambda>(A, n, R, T). n)") auto

definition poly_pow ::
  "Polynomial \<Rightarrow> nat \<Rightarrow> Polynomial \<Rightarrow> Polynomial \<Rightarrow> int \<times> Polynomial" where
  "poly_pow A n R T =
     (if n = 0 then
        (let r = Poly_InitConst R (Cplx 1 0) 0 in
         ((if fst r = 0 then 1 else 0), snd r))
      else
        (let r = poly_copy A R in
         if fst r \<noteq> 0 then pow_loop A n (snd r) T
         else (0, snd r)))"

function derive_loop :: "Polynomial \<Rightarrow> int \<Rightarrow> Polynomial \<Rightarrow> Polynomial" where
  "derive_loop A i R =
     (if i \<le> deg A - 1
      then derive_loop A (i + 1)
             (R\<lparr>coef := (coef R)[nat i :=
                  complex_mult (Cplx (of_int (i + 1)) 0) (coef A ! nat (i + 1))]\<rparr>)
      else R)"
  by pat_completeness auto
termination
  by (relation "measure (\<lambda>(A, i, R). nat (deg A - i))") auto


subsection \<open>Euclidean division\<close>

text \<open>
  \<^verbatim>\<open>poly_div\<close> works on four polynomials: the destinations \<open>Q\<close> (a pointer that may be
  \<^verbatim>\<open>NULL\<close>, hence an option) and \<open>R\<close>, and the local buffers \<open>T1\<close> and \<open>T2\<close>.
\<close>

record div_state =
  Qs :: "Polynomial option"
  Rs :: Polynomial
  T1s :: Polynomial
  T2s :: Polynomial

text \<open>
  What a call can do: return an \<^verbatim>\<open>int\<close>, leaving the two destinations in some state, or
  go on with the uninitialised result of a \<^verbatim>\<open>complex_div\<close> by zero.
\<close>

datatype div_outcome = Return int "Polynomial option" Polynomial | Indeterminate

datatype div_step = Next div_state | Fail div_state | Undef

text \<open>The code after the label \<^verbatim>\<open>error\<close>.\<close>

definition div_error :: "div_state \<Rightarrow> div_outcome" where
  "div_error s =
     Return 0
       (case Qs s of None \<Rightarrow> None
        | Some Q \<Rightarrow> Some (if coef Q \<noteq> [] then poly_free Q else Q))
       (if coef (Rs s) \<noteq> [] then poly_free (Rs s) else Rs s)"

text \<open>The block \<^verbatim>\<open>if (Q != NULL) { ... }\<close> of the loop body: \<open>Q \<leftarrow> Q + T1\<close>.\<close>

definition div_quotient :: "div_state \<Rightarrow> div_step" where
  "div_quotient s =
     (case Qs s of
        None \<Rightarrow> Next s
      | Some Q \<Rightarrow>
          (let r1 = poly_add Q (T1s s) (T2s s) in
           if fst r1 = 0 then Fail (s\<lparr>T2s := snd r1\<rparr>)
           else
             (let r2 = poly_copy (snd r1) (poly_free Q) in
              if fst r2 = 0 then Fail (s\<lparr>Qs := Some (snd r2), T2s := snd r1\<rparr>)
              else Next (s\<lparr>Qs := Some (snd r2), T2s := poly_free (snd r1)\<rparr>))))"

text \<open>The rest of the loop body: \<open>R \<leftarrow> R - T1 \<times> B\<close>.\<close>

definition div_remainder :: "Polynomial \<Rightarrow> div_state \<Rightarrow> div_step" where
  "div_remainder B s =
     (let r1 = poly_multiply (T1s s) B (T2s s) in
      if fst r1 = 0 then Fail (s\<lparr>T2s := snd r1\<rparr>)
      else
        (let r2 = poly_sub (Rs s) (snd r1) (poly_free (T1s s)) in
         if fst r2 = 0 then Fail (s\<lparr>T1s := snd r2, T2s := snd r1\<rparr>)
         else
           (let r3 = poly_copy (snd r2) (poly_free (Rs s)) in
            if fst r3 = 0
            then Fail (s\<lparr>Rs := snd r3, T1s := snd r2, T2s := poly_free (snd r1)\<rparr>)
            else Next (s\<lparr>Rs := snd r3, T1s := poly_free (snd r2),
                         T2s := poly_free (snd r1)\<rparr>))))"

definition div_body :: "Polynomial \<Rightarrow> Complex \<Rightarrow> div_state \<Rightarrow> div_step" where
  "div_body B B_leadcoef s =
     (let r1 = poly_init (T1s s) (deg (Rs s) - deg B) in
      if fst r1 = 0 then Fail (s\<lparr>T1s := snd r1\<rparr>)
      else
        (case complex_div (Poly_LeadCoef (Rs s)) B_leadcoef of
           None \<Rightarrow> Undef
         | Some c \<Rightarrow>
             (case div_quotient (s\<lparr>T1s := poly_set_coef (snd r1) (deg (Rs s) - deg B) c\<rparr>) of
                Next s1 \<Rightarrow> div_remainder B s1
              | Fail s1 \<Rightarrow> Fail s1
              | Undef \<Rightarrow> Undef)))"

text \<open>
  The loop \<^verbatim>\<open>while (R->deg - B->deg >= 0)\<close>. Whether it ends depends on the data, so it
  is a partial function: \<open>None\<close> is a loop that never returns.
\<close>

partial_function (option) div_loop ::
  "Polynomial \<Rightarrow> Complex \<Rightarrow> div_state \<Rightarrow> div_outcome option" where
  "div_loop B B_leadcoef s =
     (if deg (Rs s) - deg B \<ge> 0 then
        (case div_body B B_leadcoef s of
           Next s1 \<Rightarrow> div_loop B B_leadcoef s1
         | Fail s1 \<Rightarrow> Some (div_error s1)
         | Undef \<Rightarrow> Some Indeterminate)
      else Some (Return 1 (Qs s) (Rs s)))"

text \<open>
  \<^verbatim>\<open>poly_div\<close>. \<open>Q\<close> and \<open>R\<close> are the contents of the destinations before the call, \<open>T1\<close>
  and \<open>T2\<close> those of the two local buffers (the code initialises all four before use).
\<close>

definition div_start ::
  "Polynomial \<Rightarrow> Polynomial option \<Rightarrow> Polynomial \<Rightarrow> Polynomial \<Rightarrow> Polynomial \<Rightarrow> div_step" where
  "div_start A Q R T1 T2 =
     (let s = \<lparr>Qs = (case Q of None \<Rightarrow> None | Some Q0 \<Rightarrow> Some (snd (poly_init Q0 (-1)))),
               Rs = snd (poly_init R (-1)),
               T1s = snd (poly_init T1 (-1)),
               T2s = snd (poly_init T2 (-1))\<rparr>;
          rq = (case Qs s of None \<Rightarrow> (1, None)
                | Some Q1 \<Rightarrow> (fst (poly_init Q1 (deg A)), Some (snd (poly_init Q1 (deg A)))))
      in if fst rq = 0 then Fail (s\<lparr>Qs := snd rq\<rparr>)
         else
           (let r = poly_copy A (Rs s) in
            if fst r = 0 then Fail (s\<lparr>Qs := snd rq, Rs := snd r\<rparr>)
            else Next (s\<lparr>Qs := snd rq, Rs := snd r\<rparr>)))"

definition poly_div ::
  "Polynomial \<Rightarrow> Polynomial \<Rightarrow> Polynomial option \<Rightarrow> Polynomial \<Rightarrow> Polynomial \<Rightarrow> Polynomial
     \<Rightarrow> div_outcome option" where
  "poly_div A B Q R T1 T2 =
     (if deg B = -1 then Some (Return (-1) Q R)
      else
        (let B_leadcoef = Poly_LeadCoef B in
         case div_start A Q R T1 T2 of
           Next s \<Rightarrow> div_loop B B_leadcoef s
         | Fail s \<Rightarrow> Some (div_error s)
         | Undef \<Rightarrow> Some Indeterminate))"

section \<open>Notions used by the properties\<close>

text \<open>The \<^verbatim>\<open>int\<close> a call of \<^verbatim>\<open>poly_div\<close> returns, when it returns one.\<close>

fun returned :: "div_outcome option \<Rightarrow> int option" where
  "returned (Some (Return n Q R)) = Some n"
| "returned (Some Indeterminate) = None"
| "returned None = None"

text \<open>The degree lies inside the block: every index from \<open>0\<close> to \<open>deg\<close> can be read.\<close>

definition allocated :: "Polynomial \<Rightarrow> bool" where
  "allocated P = (-1 \<le> deg P \<and> deg P < int (length (coef P)))"


text \<open>All coefficients up to the degree are zero.\<close>

definition identically_zero :: "Polynomial \<Rightarrow> bool" where
  "identically_zero P = list_all complex_iszero (take (nat (deg P + 1)) (coef P))"

text \<open>
  The degree invariant: the degree is \<open>-1\<close> exactly for the zero polynomial, and the
  coefficient at the degree is not zero otherwise.
\<close>

definition deg_invariant :: "Polynomial \<Rightarrow> bool" where
  "deg_invariant P =
     (allocated P \<and> (deg P = -1) = identically_zero P
      \<and> (deg P = -1 \<or> \<not> complex_iszero (coef P ! nat (deg P))))"

text \<open>
  The coefficients are read in the field of complex numbers of the library: \<open>cf P k\<close> is
  the coefficient of degree \<open>k\<close> that the rest of the code sees through \<^verbatim>\<open>Poly_GetCoef\<close>.
\<close>

definition to_complex :: "Complex \<Rightarrow> complex" where
  "to_complex z = Complex (real_c z) (imag_c z)"

definition cf :: "Polynomial \<Rightarrow> nat \<Rightarrow> complex" where
  "cf P k = to_complex (Poly_GetCoef P (int k))"


text \<open>
  The common shape of the loops that store \<open>f i\<close> at every index \<open>i\<close> from a start to a
  last index \<open>m\<close>.
\<close>

function fill :: "(int \<Rightarrow> Complex) \<Rightarrow> int \<Rightarrow> int \<Rightarrow> Polynomial \<Rightarrow> Polynomial" where
  "fill f i m R =
     (if i \<le> m then fill f (i + 1) m (R\<lparr>coef := (coef R)[nat i := f i]\<rparr>) else R)"
  by pat_completeness auto
termination
  by (relation "measure (\<lambda>(f, i, m, R). nat (m + 1 - i))") auto

section \<open>Basic facts\<close>

declare Poly_Resize.simps [simp del] equal_loop.simps [simp del] eval_loop.simps [simp del]
  add_loop.simps [simp del] sub_loop.simps [simp del] neg_loop.simps [simp del]
  mult_inner.simps [simp del] mult_outer.simps [simp del] pow_loop.simps [simp del]
  derive_loop.simps [simp del] fill.simps [simp del]

lemma poly_init_minus1: "poly_init P (-1) = (1, \<lparr>coef = [], deg = -1\<rparr>)"
  by (simp add: poly_init_def)

lemma poly_init_nonneg:
  "0 \<le> d \<Longrightarrow> poly_init P d = (1, \<lparr>coef = replicate (nat (d + 1)) CZero, deg = d\<rparr>)"
  by (simp add: poly_init_def calloc_def)

lemma poly_init_below: "d < -1 \<Longrightarrow> poly_init P d = (0, P\<lparr>coef := []\<rparr>)"
  by (simp add: poly_init_def calloc_def)

lemma complex_iszero_iff: "complex_iszero c \<longleftrightarrow> c = CZero"
  by (cases c) (simp add: complex_iszero_def CZero_def)

lemma Poly_Resize_stop:
  "deg P = -1 \<or> \<not> complex_iszero (coef P ! nat (deg P)) \<Longrightarrow> Poly_Resize P = P"
  by (subst Poly_Resize.simps) auto

lemma Poly_Resize_step:
  "0 \<le> deg P \<Longrightarrow> complex_iszero (coef P ! nat (deg P)) \<Longrightarrow>
   Poly_Resize P = Poly_Resize (P\<lparr>deg := deg P - 1\<rparr>)"
  by (subst Poly_Resize.simps) auto

lemma eval_loop_done: "i < 0 \<Longrightarrow> eval_loop P c i r = r"
  by (subst eval_loop.simps) simp

lemma eval_loop_step:
  "0 \<le> i \<Longrightarrow>
   eval_loop P c i r = eval_loop P c (i - 1) (complex_add (complex_mult r c) (coef P ! nat i))"
  by (subst eval_loop.simps) simp

lemma Poly_InitConst_result:
  "Poly_InitConst P c f =
     (f, if complex_iszero c then \<lparr>coef = [c], deg = -1\<rparr> else \<lparr>coef = [c], deg = 0\<rparr>)"
  by (simp add: Poly_InitConst_def poly_init_nonneg poly_set_coef_def Poly_Resize_step
      Poly_Resize_stop)

section \<open>Division by the zero polynomial\<close>

text \<open>
  C5. For every polynomial \<open>A\<close>, dividing by a polynomial of degree \<open>-1\<close> returns \<open>-1\<close>,
  the value kept for division by the zero polynomial; so the call neither succeeds
  (\<open>1\<close>) nor reports the other failure (\<open>0\<close>).
\<close>

theorem poly_div_by_zero_polynomial:
  "deg B = -1 \<Longrightarrow> returned (poly_div A B Q R T1 T2) = Some (-1)"
  by (simp add: poly_div_def)

theorem poly_div_by_zero_polynomial_witness:
  "deg \<lparr>coef = [], deg = -1\<rparr> = -1 \<and>
   returned (poly_div \<lparr>coef = [Cplx 0 0, Cplx 1 0], deg = 1\<rparr> \<lparr>coef = [], deg = -1\<rparr>
     None \<lparr>coef = [], deg = 7\<rparr> \<lparr>coef = [], deg = 0\<rparr> \<lparr>coef = [], deg = 0\<rparr>) = Some (-1)"
  using poly_div_by_zero_polynomial [of "\<lparr>coef = [], deg = -1\<rparr>"] by simp

text \<open>
  C10. When the divisor has degree \<open>-1\<close>, \<^verbatim>\<open>poly_div\<close> returns before it writes anything:
  the quotient and remainder destinations hold what they held before the call.
\<close>

theorem poly_div_by_zero_leaves_outputs:
  "deg B = -1 \<Longrightarrow> poly_div A B Q R T1 T2 = Some (Return (-1) Q R)"
  by (simp add: poly_div_def)

theorem poly_div_by_zero_leaves_outputs_witness:
  "deg \<lparr>coef = [], deg = -1\<rparr> = -1 \<and>
   poly_div \<lparr>coef = [Cplx 0 0, Cplx 1 0], deg = 1\<rparr> \<lparr>coef = [], deg = -1\<rparr>
     (Some \<lparr>coef = [Cplx 2 0], deg = 0\<rparr>) \<lparr>coef = [Cplx 3 5], deg = 0\<rparr>
     \<lparr>coef = [], deg = 0\<rparr> \<lparr>coef = [], deg = 0\<rparr>
   = Some (Return (-1) (Some \<lparr>coef = [Cplx 2 0], deg = 0\<rparr>) \<lparr>coef = [Cplx 3 5], deg = 0\<rparr>)"
  using poly_div_by_zero_leaves_outputs [of "\<lparr>coef = [], deg = -1\<rparr>"] by simp

section \<open>Power with exponent zero, evaluation of constants\<close>

text \<open>
  C7. For every polynomial \<open>A\<close>, the zero polynomial included, \<^verbatim>\<open>poly_pow\<close> with exponent
  \<open>0\<close> succeeds and yields the constant one: degree \<open>0\<close> and coefficient \<open>1\<close> at index \<open>0\<close>.
\<close>

theorem poly_pow_zero_exponent:
  "poly_pow A 0 R T = (1, \<lparr>coef = [Cplx 1 0], deg = 0\<rparr>)"
  by (simp add: poly_pow_def Poly_InitConst_result complex_iszero_def)

text \<open>
  C8. Evaluating the constant polynomial built from \<open>c\<close> gives \<open>c\<close> at every point: for the
  polynomial that \<^verbatim>\<open>poly_init\<close> with degree \<open>0\<close> and \<^verbatim>\<open>poly_set_coef\<close> at index \<open>0\<close> build, which
  is what the macro \<^verbatim>\<open>Poly_InitConst\<close> stands for. Evaluating a polynomial of degree \<open>-1\<close>
  gives zero at every point.
\<close>

theorem poly_eval_constant:
  "poly_eval (poly_set_coef (snd (poly_init P 0)) 0 c) x = c
   \<and> poly_eval (snd (Poly_InitConst P c f)) x = c
   \<and> poly_eval (P\<lparr>deg := -1\<rparr>) x = CZero"
proof (cases c)
  case (Cplx a b)
  have "complex_add (complex_mult CZero x) c = c"
    by (simp add: Cplx CZero_def complex_add_def complex_mult_def)
  moreover have "poly_set_coef (snd (poly_init P 0)) 0 c = snd (Poly_InitConst P c f)"
    by (simp add: Poly_InitConst_def poly_init_nonneg)
  ultimately show ?thesis
    by (simp add: Poly_InitConst_result poly_eval_def eval_loop_done eval_loop_step
        complex_iszero_iff)
qed

section \<open>The scalar operations in the field of complex numbers\<close>

lemma to_complex_simps:
  "to_complex (complex_add a b) = to_complex a + to_complex b"
  "to_complex (complex_sub a b) = to_complex a - to_complex b"
  "to_complex (complex_neg a) = - to_complex a"
  "to_complex (complex_mult a b) = to_complex a * to_complex b"
  "to_complex CZero = 0"
  "to_complex COne = 1"
  by (simp_all add: to_complex_def complex_add_def complex_sub_def complex_neg_def
      complex_mult_def CZero_def COne_def complex_eq_iff)


lemma to_complex_eq_0: "to_complex a = 0 \<longleftrightarrow> complex_iszero a"
  by (cases a) (simp add: to_complex_def complex_iszero_def complex_eq_iff)


lemma complex_div_zero: "complex_iszero b \<Longrightarrow> complex_div a b = None"
  by (simp add: complex_div_def complex_iszero_def)


section \<open>Loops that fill a block\<close>

lemma fill_deg: "deg (fill f i m R) = deg R"
  by (induction f i m R rule: fill.induct) (subst fill.simps, simp)

lemma fill_length: "length (coef (fill f i m R)) = length (coef R)"
  by (induction f i m R rule: fill.induct) (subst fill.simps, simp)

lemma fill_nth:
  "0 \<le> i \<Longrightarrow> k < length (coef R) \<Longrightarrow>
   coef (fill f i m R) ! k = (if i \<le> int k \<and> int k \<le> m then f (int k) else coef R ! k)"
proof (induction f i m R rule: fill.induct)
  case (1 f i m R)
  show ?case
  proof (cases "i \<le> m")
    case True
    with 1 show ?thesis
      by (subst fill.simps) (auto simp: nth_list_update)
  next
    case False
    then show ?thesis by (subst fill.simps) auto
  qed
qed

lemma add_loop_fill:
  "add_loop A B i R =
     fill (\<lambda>i. complex_add (Poly_GetCoef A i) (Poly_GetCoef B i)) i (MAX_macro (deg A) (deg B)) R"
  by (induction A B i R rule: add_loop.induct) (subst add_loop.simps, subst fill.simps, simp)

lemma sub_loop_fill:
  "sub_loop A B i R =
     fill (\<lambda>i. complex_sub (Poly_GetCoef A i) (Poly_GetCoef B i)) i (MAX_macro (deg A) (deg B)) R"
  by (induction A B i R rule: sub_loop.induct) (subst sub_loop.simps, subst fill.simps, simp)

lemma neg_loop_fill:
  "neg_loop A i Q = fill (\<lambda>i. complex_neg (coef A ! nat i)) i (deg A) Q"
  by (induction A i Q rule: neg_loop.induct) (subst neg_loop.simps, subst fill.simps, simp)


section \<open>Coefficients, degrees and the operators\<close>

lemma cf_above_deg: "deg P < int k \<Longrightarrow> cf P k = 0"
  by (simp add: cf_def Poly_GetCoef_def to_complex_simps)

lemma cf_stored: "int k \<le> deg P \<Longrightarrow> cf P k = to_complex (coef P ! k)"
  by (simp add: cf_def Poly_GetCoef_def)

lemma MAX_macro_max: "MAX_macro a b = max a b"
  by (simp add: MAX_macro_def max_def)

lemma deg_invariant_iff:
  "deg_invariant P \<longleftrightarrow>
     allocated P \<and> (deg P = -1 \<or> \<not> complex_iszero (coef P ! nat (deg P)))"
proof -
  have "\<not> identically_zero P"
    if "allocated P" "deg P \<noteq> -1" "\<not> complex_iszero (coef P ! nat (deg P))"
  proof -
    from that have "nat (deg P) < length (take (nat (deg P + 1)) (coef P))"
      by (auto simp: allocated_def)
    moreover have "take (nat (deg P + 1)) (coef P) ! nat (deg P) = coef P ! nat (deg P)"
      using that by (auto simp: allocated_def)
    ultimately show ?thesis
      using that(3) unfolding identically_zero_def list_all_length by metis
  qed
  moreover have "identically_zero P" if "deg P = -1"
    using that by (simp add: identically_zero_def)
  ultimately show ?thesis
    unfolding deg_invariant_def by blast
qed

lemma Poly_Resize_coef: "coef (Poly_Resize P) = coef P"
  by (induction P rule: Poly_Resize.induct) (subst Poly_Resize.simps, simp)

lemma Poly_Resize_deg_le: "deg (Poly_Resize P) \<le> deg P"
proof (induction P rule: Poly_Resize.induct)
  case (1 P)
  then show ?case by (subst Poly_Resize.simps) auto
qed




lemma Poly_Resize_fixed: "deg_invariant P \<Longrightarrow> Poly_Resize P = P"
  by (rule Poly_Resize_stop) (auto simp: deg_invariant_iff)

text \<open>A fresh block of degree \<open>m\<close>, filled from index \<open>0\<close> to \<open>m\<close>.\<close>

lemma poly_init_ok: "-1 \<le> d \<Longrightarrow> fst (poly_init P d) = 1"
  by (cases "d = -1") (simp_all add: poly_init_minus1 poly_init_nonneg)

lemma poly_init_fresh:
  "-1 \<le> d \<Longrightarrow> snd (poly_init P d) = \<lparr>coef = replicate (nat (d + 1)) CZero, deg = d\<rparr>"
  by (cases "d = -1") (simp_all add: poly_init_minus1 poly_init_nonneg)

lemma fresh_fill_deg: "-1 \<le> m \<Longrightarrow> deg (fill f 0 m (snd (poly_init R m))) = m"
  by (simp add: fill_deg poly_init_fresh)

lemma fresh_fill_length:
  "-1 \<le> m \<Longrightarrow> length (coef (fill f 0 m (snd (poly_init R m)))) = nat (m + 1)"
  by (simp add: fill_length poly_init_fresh)

lemma fresh_fill_nth:
  assumes "-1 \<le> m" "int k \<le> m"
  shows "coef (fill f 0 m (snd (poly_init R m))) ! k = f (int k)"
proof -
  from assms have "k < length (coef (snd (poly_init R m)))"
    by (simp add: poly_init_fresh)
  from fill_nth [OF _ this, of 0 f m] assms show ?thesis by simp
qed


lemma fresh_fill_cf:
  "-1 \<le> m \<Longrightarrow> cf (fill f 0 m (snd (poly_init R m))) k
      = (if int k \<le> m then to_complex (f (int k)) else 0)"
  by (simp add: cf_stored cf_above_deg fresh_fill_deg fresh_fill_nth)

text \<open>Addition and subtraction.\<close>

lemma poly_add_unfold:
  "-1 \<le> max (deg A) (deg B) \<Longrightarrow>
   poly_add A B R =
     (1, Poly_Resize (fill (\<lambda>i. complex_add (Poly_GetCoef A i) (Poly_GetCoef B i)) 0
            (max (deg A) (deg B)) (snd (poly_init R (max (deg A) (deg B))))))"
  by (simp add: poly_add_def MAX_macro_max poly_init_ok add_loop_fill)


lemma poly_add_deg_le:
  "-1 \<le> max (deg A) (deg B) \<Longrightarrow> deg (snd (poly_add A B R)) \<le> max (deg A) (deg B)"
  using Poly_Resize_deg_le [of "fill (\<lambda>i. complex_add (Poly_GetCoef A i) (Poly_GetCoef B i)) 0
            (max (deg A) (deg B)) (snd (poly_init R (max (deg A) (deg B))))"]
  by (simp add: poly_add_unfold fresh_fill_deg)


lemma poly_sub_unfold:
  "-1 \<le> max (deg A) (deg B) \<Longrightarrow>
   poly_sub A B R =
     (1, Poly_Resize (fill (\<lambda>i. complex_sub (Poly_GetCoef A i) (Poly_GetCoef B i)) 0
            (max (deg A) (deg B)) (snd (poly_init R (max (deg A) (deg B))))))"
  by (simp add: poly_sub_def MAX_macro_max poly_init_ok sub_loop_fill)


lemma poly_sub_deg_le:
  "-1 \<le> max (deg A) (deg B) \<Longrightarrow> deg (snd (poly_sub A B R)) \<le> max (deg A) (deg B)"
  using Poly_Resize_deg_le [of "fill (\<lambda>i. complex_sub (Poly_GetCoef A i) (Poly_GetCoef B i)) 0
            (max (deg A) (deg B)) (snd (poly_init R (max (deg A) (deg B))))"]
  by (simp add: poly_sub_unfold fresh_fill_deg)









text \<open>Negation and derivative.\<close>

lemma poly_neg_unfold:
  "-1 \<le> deg A \<Longrightarrow>
   poly_neg A Q = (1, fill (\<lambda>i. complex_neg (coef A ! nat i)) 0 (deg A) (snd (poly_init Q (deg A))))"
  by (simp add: poly_neg_def poly_init_ok neg_loop_fill)



lemma poly_neg_deg: "-1 \<le> deg A \<Longrightarrow> deg (snd (poly_neg A Q)) = deg A"
  by (simp add: poly_neg_unfold fresh_fill_deg)

lemma poly_neg_cf: "-1 \<le> deg A \<Longrightarrow> cf (snd (poly_neg A Q)) k = - cf A k"
  by (simp add: poly_neg_unfold fresh_fill_cf to_complex_simps cf_stored cf_above_deg)





text \<open>The single term \<open>c X\<^sup>t\<close> built in the division loop.\<close>

lemma Poly_Resize_all_zero:
  "\<forall>k. int k \<le> deg P \<longrightarrow> complex_iszero (coef P ! k) \<Longrightarrow> -1 \<le> deg P
   \<Longrightarrow> deg (Poly_Resize P) = -1"
proof (induction P rule: Poly_Resize.induct)
  case (1 P)
  show ?case
  proof (cases "deg P = -1")
    case True
    then show ?thesis by (simp add: Poly_Resize_stop)
  next
    case False
    with 1(3) have d: "0 \<le> deg P" by simp
    then have z: "complex_iszero (coef P ! nat (deg P))" using 1(2) by simp
    have "deg (Poly_Resize (P\<lparr>deg := deg P - 1\<rparr>)) = -1"
      using 1(1) d z 1(2) by simp
    then show ?thesis using d z by (simp add: Poly_Resize_step)
  qed
qed




















section \<open>The division loop\<close>





text \<open>Equality test.\<close>

lemma equal_loop_same:
  "0 \<le> i \<Longrightarrow> \<forall>k. i \<le> int k \<and> int k \<le> deg P \<longrightarrow> coef P ! k = coef Q ! k
   \<Longrightarrow> equal_loop P Q i = 1"
proof (induction P Q i rule: equal_loop.induct)
  case (1 P Q i)
  show ?case
  proof (cases "i \<le> deg P")
    case True
    with 1(2,3) have "coef P ! nat i = coef Q ! nat i" by simp
    moreover have "equal_loop P Q (i + 1) = 1"
      using True 1(2,3) \<open>coef P ! nat i = coef Q ! nat i\<close> by (intro 1(1)) auto
    ultimately show ?thesis using True by (subst equal_loop.simps) simp
  next
    case False
    then show ?thesis by (subst equal_loop.simps) simp
  qed
qed



lemma poly_init_cf: "-1 \<le> d \<Longrightarrow> cf (snd (poly_init P d)) k = 0"
  by (simp add: poly_init_fresh cf_def Poly_GetCoef_def to_complex_simps)












section \<open>Euclidean division: identity, remainder degree, termination\<close>






section \<open>Addition: commutativity, and the sum with the negation\<close>

lemma complex_add_commute: "complex_add a b = complex_add b a"
  by (simp add: complex_add_def)

lemma poly_equal_refl: "poly_equal P P = 1"
  by (simp add: poly_equal_def equal_loop_same)

text \<open>
  C9. For allocated polynomials \<open>A\<close> and \<open>B\<close>, \<^verbatim>\<open>poly_add\<close> of \<open>A\<close> and \<open>B\<close> and \<^verbatim>\<open>poly_add\<close> of
  \<open>B\<close> and \<open>A\<close> both succeed and produce the same polynomial: the same degree and the same
  block of coefficients, which \<^verbatim>\<open>poly_equal\<close> confirms. \<open>R\<close> and \<open>R'\<close> are the previous
  contents of the two destinations.
\<close>

theorem poly_add_commutes:
  assumes "allocated A" "allocated B"
  shows "fst (poly_add A B R) = 1 \<and> poly_add A B R = poly_add B A R'
         \<and> poly_equal (snd (poly_add A B R)) (snd (poly_add B A R')) = 1"
proof -
  from assms have m: "-1 \<le> max (deg A) (deg B)" "-1 \<le> max (deg B) (deg A)"
    by (auto simp: allocated_def)
  have "(\<lambda>i. complex_add (Poly_GetCoef A i) (Poly_GetCoef B i))
      = (\<lambda>i. complex_add (Poly_GetCoef B i) (Poly_GetCoef A i))"
    by (simp add: complex_add_commute)
  then have "poly_add A B R = poly_add B A R'"
    using m by (simp add: poly_add_unfold poly_init_fresh max.commute)
  then show ?thesis
    using m by (simp add: poly_add_unfold poly_equal_refl)
qed

theorem poly_add_commutes_witness:
  "allocated \<lparr>coef = [Cplx 1 2, Cplx 0 1], deg = 1\<rparr>
   \<and> allocated \<lparr>coef = [Cplx 3 0, Cplx 0 0, Cplx 5 0], deg = 2\<rparr>
   \<and> poly_add \<lparr>coef = [Cplx 1 2, Cplx 0 1], deg = 1\<rparr>
        \<lparr>coef = [Cplx 3 0, Cplx 0 0, Cplx 5 0], deg = 2\<rparr> \<lparr>coef = [], deg = -1\<rparr>
     = poly_add \<lparr>coef = [Cplx 3 0, Cplx 0 0, Cplx 5 0], deg = 2\<rparr>
        \<lparr>coef = [Cplx 1 2, Cplx 0 1], deg = 1\<rparr> \<lparr>coef = [], deg = 4\<rparr>"
proof -
  have a: "allocated \<lparr>coef = [Cplx 1 2, Cplx 0 1], deg = 1\<rparr>"
    by (simp add: allocated_def)
  have b: "allocated \<lparr>coef = [Cplx 3 0, Cplx 0 0, Cplx 5 0], deg = 2\<rparr>"
    by (simp add: allocated_def)
  from poly_add_commutes [OF a b] a b show ?thesis by blast
qed

lemma poly_add_neg_block:
  assumes "deg_invariant A"
  shows "fst (poly_neg A N) = 1"
    and "fst (poly_add A (snd (poly_neg A N)) R) = 1"
    and "deg (snd (poly_add A (snd (poly_neg A N)) R)) = -1"
    and "coef (snd (poly_add A (snd (poly_neg A N)) R)) = replicate (nat (deg A + 1)) CZero"
proof -
  let ?N = "snd (poly_neg A N)"
  let ?f = "\<lambda>i. complex_add (Poly_GetCoef A i) (Poly_GetCoef ?N i)"
  let ?F = "fill ?f 0 (deg A) (snd (poly_init R (deg A)))"
  from assms have d: "-1 \<le> deg A" by (simp add: deg_invariant_iff allocated_def)
  then show "fst (poly_neg A N) = 1" by (simp add: poly_neg_unfold)
  have dN: "deg ?N = deg A" using d by (rule poly_neg_deg)
  have u: "poly_add A ?N R = (1, Poly_Resize ?F)"
    using d by (simp add: poly_add_unfold dN)
  then show "fst (poly_add A ?N R) = 1" by simp
  have z: "?f (int k) = CZero" if "int k \<le> deg A" for k
  proof -
    have "to_complex (?f (int k)) = cf A k + cf ?N k"
      by (simp add: to_complex_simps cf_def)
    also have "\<dots> = 0" using d by (simp add: poly_neg_cf)
    finally show ?thesis by (simp add: to_complex_eq_0 complex_iszero_iff)
  qed
  have nth: "coef ?F ! k = CZero" if "int k \<le> deg A" for k
    using that d z by (simp add: fresh_fill_nth)
  have "\<forall>k. int k \<le> deg ?F \<longrightarrow> complex_iszero (coef ?F ! k)"
    using d nth by (simp add: fresh_fill_deg complex_iszero_iff)
  then have "deg (Poly_Resize ?F) = -1"
    by (rule Poly_Resize_all_zero) (use d in \<open>simp add: fresh_fill_deg\<close>)
  then show "deg (snd (poly_add A ?N R)) = -1" by (simp add: u)
  have "coef ?F = replicate (nat (deg A + 1)) CZero"
    using d nth by (intro nth_equalityI) (simp_all add: fresh_fill_length)
  then show "coef (snd (poly_add A ?N R)) = replicate (nat (deg A + 1)) CZero"
    by (simp add: u Poly_Resize_coef)
qed

text \<open>
  C6, as the code has it. For every \<open>A\<close> satisfying the degree invariant, \<^verbatim>\<open>poly_neg\<close> and then
  \<^verbatim>\<open>poly_add\<close> succeed and the sum has degree \<open>-1\<close>; its block is the one \<^verbatim>\<open>poly_add\<close>
  obtained for degree \<open>deg A\<close>, holding \<open>deg A + 1\<close> zero coefficients (\<^verbatim>\<open>Poly_Resize\<close> lowers
  the degree and never releases a block). The sum owns no block exactly when \<open>A\<close> is itself
  the zero polynomial.
\<close>

theorem poly_add_neg_zero:
  assumes "deg_invariant A"
  shows "fst (poly_neg A N) = 1
         \<and> fst (poly_add A (snd (poly_neg A N)) R) = 1
         \<and> deg (snd (poly_add A (snd (poly_neg A N)) R)) = -1
         \<and> coef (snd (poly_add A (snd (poly_neg A N)) R)) = replicate (nat (deg A + 1)) CZero
         \<and> ((coef (snd (poly_add A (snd (poly_neg A N)) R)) = []) = (deg A = -1))"
proof -
  from assms have "-1 \<le> deg A" by (simp add: deg_invariant_iff allocated_def)
  then have "(replicate (nat (deg A + 1)) CZero = []) = (deg A = -1)" by auto
  with poly_add_neg_block [OF assms] show ?thesis by simp
qed

theorem poly_add_neg_zero_witness:
  "deg_invariant \<lparr>coef = [Cplx 0 0, Cplx 1 0], deg = 1\<rparr>
   \<and> deg (snd (poly_add \<lparr>coef = [Cplx 0 0, Cplx 1 0], deg = 1\<rparr>
        (snd (poly_neg \<lparr>coef = [Cplx 0 0, Cplx 1 0], deg = 1\<rparr> \<lparr>coef = [], deg = -1\<rparr>))
        \<lparr>coef = [], deg = -1\<rparr>)) = -1
   \<and> coef (snd (poly_add \<lparr>coef = [Cplx 0 0, Cplx 1 0], deg = 1\<rparr>
        (snd (poly_neg \<lparr>coef = [Cplx 0 0, Cplx 1 0], deg = 1\<rparr> \<lparr>coef = [], deg = -1\<rparr>))
        \<lparr>coef = [], deg = -1\<rparr>)) = [CZero, CZero]"
proof -
  have a: "deg_invariant \<lparr>coef = [Cplx 0 0, Cplx 1 0], deg = 1\<rparr>"
    by (simp add: deg_invariant_iff allocated_def complex_iszero_def)
  from poly_add_neg_zero [OF a, of "\<lparr>coef = [], deg = -1\<rparr>" "\<lparr>coef = [], deg = -1\<rparr>"] a
  show ?thesis by (simp add: numeral_2_eq_2)
qed

text \<open>
  The claim as stated fails for \<open>A = X\<close>: the sum of \<open>X\<close> and its negation has degree \<open>-1\<close> and
  still owns the block of two coefficients obtained for degree \<open>1\<close>.
\<close>

theorem poly_add_neg_keeps_block:
  "deg_invariant \<lparr>coef = [Cplx 0 0, Cplx 1 0], deg = 1\<rparr>
   \<and> poly_neg \<lparr>coef = [Cplx 0 0, Cplx 1 0], deg = 1\<rparr> \<lparr>coef = [], deg = -1\<rparr>
       = (1, \<lparr>coef = [Cplx 0 0, Cplx (-1) 0], deg = 1\<rparr>)
   \<and> poly_add \<lparr>coef = [Cplx 0 0, Cplx 1 0], deg = 1\<rparr>
        \<lparr>coef = [Cplx 0 0, Cplx (-1) 0], deg = 1\<rparr> \<lparr>coef = [], deg = -1\<rparr>
       = (1, \<lparr>coef = [Cplx 0 0, Cplx 0 0], deg = -1\<rparr>)
   \<and> coef \<lparr>coef = [Cplx 0 0, Cplx 0 0], deg = -1\<rparr> \<noteq> []"
  by (simp add: deg_invariant_iff allocated_def complex_iszero_def poly_neg_def poly_add_def
      poly_init_def calloc_def neg_loop.simps add_loop.simps Poly_Resize.simps MAX_macro_def
      Poly_GetCoef_def complex_neg_def complex_add_def CZero_def numeral_2_eq_2)

section \<open>Multiplication by the zero polynomial\<close>

text \<open>
  C2. The degree law holds for non-zero operands: see \<open>poly_multiply_deg\<close> and
  \<open>poly_multiply_invariant\<close> above. With the zero polynomial as an operand the code does
  not return the zero polynomial: zero times \<open>X\<close> succeeds with degree \<open>0\<close> and the
  coefficient \<open>0\<close>, and zero times zero asks \<^verbatim>\<open>poly_init\<close> for degree \<open>-2\<close> and fails.
\<close>

theorem poly_multiply_zero_operand:
  "poly_multiply \<lparr>coef = [], deg = -1\<rparr> \<lparr>coef = [Cplx 0 0, Cplx 1 0], deg = 1\<rparr>
     \<lparr>coef = [], deg = -1\<rparr> = (1, \<lparr>coef = [Cplx 0 0], deg = 0\<rparr>)
   \<and> poly_multiply \<lparr>coef = [], deg = -1\<rparr> \<lparr>coef = [], deg = -1\<rparr> \<lparr>coef = [], deg = -1\<rparr>
     = (0, \<lparr>coef = [], deg = -1\<rparr>)"
  by (simp add: poly_multiply_def poly_init_def calloc_def mult_outer.simps mult_inner.simps
      Poly_GetCoef_def complex_mult_def CZero_def)



section \<open>The degree invariant of results\<close>







section \<open>The scenarios of the specification\<close>

text \<open>
  The model run on the concrete scenarios the specification lists: \<open>X\<close> divided by \<open>1\<close>,
  \<open>X\<^sup>2 - 1\<close> divided by \<open>X - 1\<close>, zero divided by \<open>X\<close>, the product \<open>(X + 1)(X - 1)\<close> and the
  third power of the constant \<open>2\<close>.
\<close>

lemmas run_simps = poly_div_def div_start_def div_body_def div_quotient_def div_remainder_def
  div_loop.simps poly_init_def calloc_def poly_copy_def memcpy_def poly_free_def
  poly_set_coef_def Poly_Resize.simps poly_add_def add_loop.simps poly_sub_def sub_loop.simps
  poly_multiply_def mult_outer.simps mult_inner.simps Poly_GetCoef_def Poly_LeadCoef_def
  complex_div_def complex_mult_def complex_add_def complex_sub_def complex_iszero_def
  MAX_macro_def CZero_def COne_def Let_def numeral_2_eq_2 numeral_3_eq_3
  poly_pow_def pow_loop.simps

lemma scenario_X_by_one:
  "poly_div \<lparr>coef = [Cplx 0 0, Cplx 1 0], deg = 1\<rparr> \<lparr>coef = [Cplx 1 0], deg = 0\<rparr>
     (Some \<lparr>coef = [], deg = -1\<rparr>) \<lparr>coef = [], deg = -1\<rparr> \<lparr>coef = [], deg = -1\<rparr>
     \<lparr>coef = [], deg = -1\<rparr>
   = Some (Return 1 (Some \<lparr>coef = [Cplx 0 0, Cplx 1 0], deg = 1\<rparr>) \<lparr>coef = [], deg = -1\<rparr>)"
  by (simp add: run_simps)

lemma scenario_square_minus_one:
  "poly_div \<lparr>coef = [Cplx (-1) 0, Cplx 0 0, Cplx 1 0], deg = 2\<rparr>
     \<lparr>coef = [Cplx (-1) 0, Cplx 1 0], deg = 1\<rparr>
     (Some \<lparr>coef = [], deg = -1\<rparr>) \<lparr>coef = [], deg = -1\<rparr> \<lparr>coef = [], deg = -1\<rparr>
     \<lparr>coef = [], deg = -1\<rparr>
   = Some (Return 1 (Some \<lparr>coef = [Cplx 1 0, Cplx 1 0], deg = 1\<rparr>) \<lparr>coef = [], deg = -1\<rparr>)"
  by (simp add: run_simps)

lemma scenario_zero_by_X:
  "poly_div \<lparr>coef = [], deg = -1\<rparr> \<lparr>coef = [Cplx 0 0, Cplx 1 0], deg = 1\<rparr>
     (Some \<lparr>coef = [], deg = -1\<rparr>) \<lparr>coef = [], deg = -1\<rparr> \<lparr>coef = [], deg = -1\<rparr>
     \<lparr>coef = [], deg = -1\<rparr>
   = Some (Return 1 (Some \<lparr>coef = [], deg = -1\<rparr>) \<lparr>coef = [], deg = -1\<rparr>)"
  by (simp add: run_simps)

lemma scenario_product:
  "poly_multiply \<lparr>coef = [Cplx 1 0, Cplx 1 0], deg = 1\<rparr> \<lparr>coef = [Cplx (-1) 0, Cplx 1 0], deg = 1\<rparr>
     \<lparr>coef = [], deg = -1\<rparr>
   = (1, \<lparr>coef = [Cplx (-1) 0, Cplx 0 0, Cplx 1 0], deg = 2\<rparr>)"
  by (simp add: run_simps)

lemma scenario_power:
  "poly_pow \<lparr>coef = [Cplx 2 0], deg = 0\<rparr> 3 \<lparr>coef = [], deg = -1\<rparr> \<lparr>coef = [], deg = -1\<rparr>
   = (1, \<lparr>coef = [Cplx 8 0], deg = 0\<rparr>)"
  by (simp add: run_simps)

end
